theory Spec2Isabelle
  imports Complex_Main "HOL-Library.AList"
begin

section \<open>The ELT pipeline of src/etl/etl.py\<close>

text \<open>
  The program reads trip records from a staging table, anonymises and normalises them
  with pandas and writes them to an analytical store. The model follows etl.py function
  by function. What etl.py takes from libraries is modelled as follows:
  \<^item> a pandas DataFrame is a number of rows and an ordered list of named columns;
  \<^item> a cell is one of the three missing values of pandas (\<open>None\<close>, \<open>NaN\<close>, \<open>NaT\<close>) or a
    scalar: a string, a number or a timestamp. Numbers are rationals and are compared by
    value, as Python compares \<open>1\<close> and \<open>1.0\<close>; non-finite floats are not modelled;
  \<^item> the functions whose results depend on library code that is not part of the
    repository (the HMAC-SHA256 digest, the text of a number, the parsers behind
    \<open>pd.to_numeric\<close>, \<open>pd.to_datetime\<close> and \<open>int\<close>) are fields of a record \<open>pylib\<close> that
    every function takes as its first argument;
  \<^item> the configuration read from config.yml and the environment (\<open>HMAC_KEY\<close>,
    \<open>DEFAULTS\<close>) is a record \<open>config\<close>. A default is a scalar; a YAML \<open>null\<close> default is
    outside the model;
  \<^item> an exception is a value \<open>Inl e\<close> of the result. Failures of the database
    connections themselves are not modelled.
\<close>

subsection \<open>Cells, series and frames\<close>

datatype scalar = Str string | Num rat | Ts int

datatype cell = PyNone | NaN | NaT | Val scalar

datatype error = KeyError string | ValueError | TypeError | UndefinedColumn string

type_synonym series = "cell list"

record dataframe =
  nrows :: nat
  cols :: "(string \<times> series) list"

text \<open>\<open>pd.isna\<close> and \<open>pd.notna\<close> on one cell.\<close>

fun isna :: "cell \<Rightarrow> bool" where
  "isna (Val v) = False"
| "isna PyNone = True"
| "isna NaN = True"
| "isna NaT = True"

definition notna :: "cell \<Rightarrow> bool" where
  "notna c = (\<not> isna c)"

text \<open>A frame is well formed when its column names are distinct and every column has
  one cell per row.\<close>

definition wf_df :: "dataframe \<Rightarrow> bool" where
  "wf_df df = (distinct (map fst (cols df)) \<and> list_all (\<lambda>cs. length (snd cs) = nrows df) (cols df))"

text \<open>\<open>c in df.columns\<close>, \<open>df[c]\<close> (which raises KeyError), \<open>df[c] = series\<close> (in place when
  the column exists, appended as the last column otherwise) and \<open>df.empty\<close>.\<close>

definition has_col :: "dataframe \<Rightarrow> string \<Rightarrow> bool" where
  "has_col df c = (map_of (cols df) c \<noteq> None)"

definition getitem :: "dataframe \<Rightarrow> string \<Rightarrow> error + series" where
  "getitem df c = (case map_of (cols df) c of None \<Rightarrow> Inl (KeyError c) | Some s \<Rightarrow> Inr s)"

definition setitem :: "dataframe \<Rightarrow> string \<Rightarrow> series \<Rightarrow> dataframe" where
  "setitem df c s = df\<lparr>cols := AList.update c s (cols df)\<rparr>"

definition df_empty :: "dataframe \<Rightarrow> bool" where
  "df_empty df = (nrows df = 0 \<or> cols df = [])"

text \<open>\<open>df[c] = v\<close> for a scalar \<open>v\<close>: the value in every row.\<close>

definition setitem_scalar :: "dataframe \<Rightarrow> string \<Rightarrow> cell \<Rightarrow> dataframe" where
  "setitem_scalar df c v = setitem df c (replicate (nrows df) v)"

text \<open>Sequencing of computations that may raise.\<close>

definition bind_err :: "error + 'a \<Rightarrow> ('a \<Rightarrow> error + 'b) \<Rightarrow> error + 'b" where
  "bind_err m f = (case m of Inl e \<Rightarrow> Inl e | Inr x \<Rightarrow> f x)"

subsection \<open>Library functions\<close>

record pylib =
  hmac_sha256 :: "string \<Rightarrow> string \<Rightarrow> string"
  py_str :: "scalar \<Rightarrow> string"
  parse_number :: "string \<Rightarrow> rat option"
  parse_int :: "string \<Rightarrow> int option"
  parse_datetime :: "series \<Rightarrow> string \<Rightarrow> int option"

text \<open>
  \<open>hmac_sha256 L key msg\<close> is the 32-byte digest \<open>hmac.new(key, msg, hashlib.sha256).digest()\<close>,
  \<open>py_str L v\<close> is \<open>str(v)\<close> for a number or a timestamp, \<open>parse_number L s\<close> is the number
  that \<open>pd.to_numeric\<close> reads from the string \<open>s\<close> (\<open>None\<close> when it reads none),
  \<open>parse_int L s\<close> is \<open>int(s)\<close> (\<open>None\<close> when it raises) and \<open>parse_datetime L col s\<close> is the
  instant, in nanoseconds, that \<open>pd.to_datetime\<close> reads from \<open>s\<close> in the column \<open>col\<close>
  (the format is inferred from the column).
\<close>

record config =
  HMAC_KEY :: string
  DEFAULTS :: "(string \<times> scalar) list"

text \<open>\<open>DEFAULTS.get(c)\<close>: \<open>None\<close> when the policy does not name \<open>c\<close>.\<close>

definition defaults_get :: "config \<Rightarrow> string \<Rightarrow> cell" where
  "defaults_get cfg c = (case map_of (DEFAULTS cfg) c of None \<Rightarrow> PyNone | Some v \<Rightarrow> Val v)"

text \<open>\<open>hexdigest()\<close>: two lowercase hexadecimal digits for every byte of the digest.\<close>

definition hex_digit :: "nat \<Rightarrow> char" where
  "hex_digit n = ''0123456789abcdef'' ! (n mod 16)"

definition hex_byte :: "char \<Rightarrow> string" where
  "hex_byte c = [hex_digit (of_char c div 16), hex_digit (of_char c)]"

definition hexdigest :: "string \<Rightarrow> string" where
  "hexdigest bytes = concat (map hex_byte bytes)"

text \<open>\<open>str(x)\<close> of a cell, which is also what \<open>astype(str)\<close> does to each cell. Strings
  are byte strings, so \<open>encode("utf-8")\<close> is the identity.\<close>

fun str_cell :: "pylib \<Rightarrow> cell \<Rightarrow> string" where
  "str_cell L PyNone = ''None''"
| "str_cell L NaN = ''nan''"
| "str_cell L NaT = ''NaT''"
| "str_cell L (Val (Str s)) = s"
| "str_cell L (Val v) = py_str L v"

definition astype_str :: "pylib \<Rightarrow> series \<Rightarrow> string list" where
  "astype_str L s = map (str_cell L) s"

text \<open>\<open>Series.fillna(v)\<close>: pandas refuses the fill value \<open>None\<close> with a ValueError, before
  it looks at the series.\<close>

definition fill_cell :: "cell \<Rightarrow> cell \<Rightarrow> cell" where
  "fill_cell v x = (if isna x then v else x)"

definition fillna :: "cell \<Rightarrow> series \<Rightarrow> error + series" where
  "fillna v s = (if v = PyNone then Inl ValueError else Inr (map (fill_cell v) s))"

text \<open>\<open>pd.to_datetime(series, errors="coerce")\<close>: what does not parse becomes \<open>NaT\<close>.
  \<open>pd.to_datetime(v)\<close> on one value raises on a string that does not parse and returns
  \<open>None\<close> for \<open>None\<close>.\<close>

fun to_datetime_cell :: "pylib \<Rightarrow> series \<Rightarrow> cell \<Rightarrow> cell" where
  "to_datetime_cell L col (Val (Ts t)) = Val (Ts t)"
| "to_datetime_cell L col (Val (Num r)) = Val (Ts (floor r))"
| "to_datetime_cell L col (Val (Str s)) =
     (case parse_datetime L col s of None \<Rightarrow> NaT | Some t \<Rightarrow> Val (Ts t))"
| "to_datetime_cell L col c = NaT"

definition to_datetime_coerce :: "pylib \<Rightarrow> series \<Rightarrow> series" where
  "to_datetime_coerce L s = map (to_datetime_cell L s) s"

fun to_datetime :: "pylib \<Rightarrow> cell \<Rightarrow> error + cell" where
  "to_datetime L PyNone = Inr PyNone"
| "to_datetime L (Val (Str s)) =
     (case parse_datetime L [Val (Str s)] s of None \<Rightarrow> Inl ValueError | Some t \<Rightarrow> Inr (Val (Ts t)))"
| "to_datetime L c = Inr (to_datetime_cell L [c] c)"

text \<open>\<open>pd.to_numeric(series, errors="coerce")\<close>: what does not parse becomes \<open>NaN\<close>; a
  timestamp becomes its count of nanoseconds.\<close>

fun to_numeric_cell :: "pylib \<Rightarrow> cell \<Rightarrow> cell" where
  "to_numeric_cell L (Val (Num r)) = Val (Num r)"
| "to_numeric_cell L (Val (Ts t)) = Val (Num (of_int t))"
| "to_numeric_cell L (Val (Str s)) =
     (case parse_number L s of None \<Rightarrow> NaN | Some r \<Rightarrow> Val (Num r))"
| "to_numeric_cell L c = NaN"

definition to_numeric_coerce :: "pylib \<Rightarrow> series \<Rightarrow> series" where
  "to_numeric_coerce L s = map (to_numeric_cell L) s"

text \<open>\<open>Series.astype(int)\<close>: a number is truncated towards zero, a string goes through
  \<open>int\<close>, a missing value raises.\<close>

definition trunc :: "rat \<Rightarrow> int" where
  "trunc r = (if 0 \<le> r then floor r else ceiling r)"

fun int_cell :: "pylib \<Rightarrow> cell \<Rightarrow> error + cell" where
  "int_cell L (Val (Num r)) = Inr (Val (Num (of_int (trunc r))))"
| "int_cell L (Val (Str s)) =
     (case parse_int L s of None \<Rightarrow> Inl ValueError | Some i \<Rightarrow> Inr (Val (Num (of_int i))))"
| "int_cell L (Val (Ts t)) = Inl TypeError"
| "int_cell L c = Inl ValueError"

fun astype_int :: "pylib \<Rightarrow> series \<Rightarrow> error + series" where
  "astype_int L [] = Inr []"
| "astype_int L (x # xs) =
     bind_err (int_cell L x) (\<lambda>y. bind_err (astype_int L xs) (\<lambda>ys. Inr (y # ys)))"

subsection \<open>The anonymizer: \<open>hmac_hash\<close>\<close>

text \<open>
  \<^verbatim>\<open>
  def hmac_hash(value: str):
      if pd.isna(value) or value is None:
          return None
      hm = hmac.new(HMAC_KEY, str(value).encode("utf-8"), hashlib.sha256)
      return hm.hexdigest()
  \<close>
\<close>

definition hmac_hash :: "pylib \<Rightarrow> config \<Rightarrow> cell \<Rightarrow> cell" where
  "hmac_hash L cfg v =
     (if isna v \<or> v = PyNone then PyNone
      else Val (Str (hexdigest (hmac_sha256 L (HMAC_KEY cfg) (str_cell L v)))))"

subsection \<open>The object store\<close>

text \<open>
  A Python variable holds a reference to a DataFrame object, and \<open>df[c] = s\<close> changes the
  object that \<open>df\<close> refers to. The store maps references to the current content of the
  objects; a function that receives a DataFrame receives its reference.
\<close>

type_synonym ref = nat

type_synonym store = "ref \<Rightarrow> dataframe"

definition store_col :: "store \<Rightarrow> ref \<Rightarrow> string \<Rightarrow> series \<Rightarrow> store" where
  "store_col h df c s = h(df := setitem (h df) c s)"

subsection \<open>\<open>fill_defaults\<close>\<close>

text \<open>
  \<^verbatim>\<open>
  def fill_defaults(df: pd.DataFrame, defaults: dict):
      for col, val in defaults.items():
          if col in df.columns:
              df[col] = df[col].fillna(val)
          else:
              df[col] = val
      return df
  \<close>
  The function returns the reference it was given.
\<close>

fun fill_defaults :: "store \<Rightarrow> ref \<Rightarrow> (string \<times> scalar) list \<Rightarrow> error + (store \<times> ref)" where
  "fill_defaults h df [] = Inr (h, df)"
| "fill_defaults h df ((col, val) # rest) =
     (if has_col (h df) col then
        bind_err (getitem (h df) col) (\<lambda>s.
        bind_err (fillna (Val val) s) (\<lambda>s'.
        fill_defaults (store_col h df col s') df rest))
      else fill_defaults (store_col h df col (replicate (nrows (h df)) (Val val))) df rest)"

subsection \<open>\<open>transform_df\<close>\<close>

text \<open>
  \<^verbatim>\<open>
  def transform_df(df: pd.DataFrame):
      df = fill_defaults(df, DEFAULTS)
      # create deterministic id if none exists
      if "id" not in df.columns:
          df["id"] = (df["pickup_datetime"].astype(str) + "|"
                      + df["trip_distance"].astype(str)).apply(lambda x: hmac_hash(x))
      else:
          df["id"] = df["id"].apply(lambda x: hmac_hash(x) if pd.notna(x) else None)
  \<close>
\<close>

definition composite_key :: "pylib \<Rightarrow> series \<Rightarrow> series \<Rightarrow> series" where
  "composite_key L p d =
     map2 (\<lambda>a b. Val (Str ((a @ ''|'') @ b))) (astype_str L p) (astype_str L d)"

definition derive_id :: "pylib \<Rightarrow> config \<Rightarrow> store \<Rightarrow> ref \<Rightarrow> error + store" where
  "derive_id L cfg h df =
     (if \<not> has_col (h df) ''id'' then
        bind_err (getitem (h df) ''pickup_datetime'') (\<lambda>p.
        bind_err (getitem (h df) ''trip_distance'') (\<lambda>d.
        Inr (store_col h df ''id'' (map (\<lambda>x. hmac_hash L cfg x) (composite_key L p d)))))
      else
        bind_err (getitem (h df) ''id'') (\<lambda>s.
        Inr (store_col h df ''id''
               (map (\<lambda>x. if notna x then hmac_hash L cfg x else PyNone) s))))"

text \<open>
  \<^verbatim>\<open>
      for c in ["pickup_datetime", "dropoff_datetime"]:
          if c in df.columns:
              df[c] = pd.to_datetime(df[c], errors="coerce").fillna(
                          pd.to_datetime(DEFAULTS.get(c)))
  \<close>
\<close>

fun parse_datetimes :: "pylib \<Rightarrow> config \<Rightarrow> store \<Rightarrow> ref \<Rightarrow> string list \<Rightarrow> error + store" where
  "parse_datetimes L cfg h df [] = Inr h"
| "parse_datetimes L cfg h df (c # cs) =
     (if has_col (h df) c then
        bind_err (getitem (h df) c) (\<lambda>s.
        bind_err (to_datetime L (defaults_get cfg c)) (\<lambda>d.
        bind_err (fillna d (to_datetime_coerce L s)) (\<lambda>s'.
        parse_datetimes L cfg (store_col h df c s') df cs)))
      else parse_datetimes L cfg h df cs)"

text \<open>
  \<^verbatim>\<open>
      if "trip_distance" in df.columns:
          df["trip_distance"] = pd.to_numeric(df["trip_distance"], errors="coerce"
                                    ).fillna(DEFAULTS.get("trip_distance"))
      if "passenger_count" in df.columns:
          df["passenger_count"] = pd.to_numeric(df["passenger_count"], errors="coerce"
                                    ).fillna(DEFAULTS.get("passenger_count")).astype(int)
      if "fare_amount" in df.columns:
          df["fare_amount"] = pd.to_numeric(df["fare_amount"], errors="coerce"
                                    ).fillna(DEFAULTS.get("fare_amount"))
      return df
  \<close>
  The first and the third statement differ in the column name only.
\<close>

definition coerce_numeric :: "pylib \<Rightarrow> config \<Rightarrow> store \<Rightarrow> ref \<Rightarrow> string \<Rightarrow> error + store" where
  "coerce_numeric L cfg h df c =
     (if has_col (h df) c then
        bind_err (getitem (h df) c) (\<lambda>s.
        bind_err (fillna (defaults_get cfg c) (to_numeric_coerce L s)) (\<lambda>s'.
        Inr (store_col h df c s')))
      else Inr h)"

definition coerce_integer :: "pylib \<Rightarrow> config \<Rightarrow> store \<Rightarrow> ref \<Rightarrow> string \<Rightarrow> error + store" where
  "coerce_integer L cfg h df c =
     (if has_col (h df) c then
        bind_err (getitem (h df) c) (\<lambda>s.
        bind_err (fillna (defaults_get cfg c) (to_numeric_coerce L s)) (\<lambda>s'.
        bind_err (astype_int L s') (\<lambda>s''.
        Inr (store_col h df c s''))))
      else Inr h)"

definition transform_df :: "pylib \<Rightarrow> config \<Rightarrow> store \<Rightarrow> ref \<Rightarrow> error + (store \<times> ref)" where
  "transform_df L cfg h0 df0 =
     bind_err (fill_defaults h0 df0 (DEFAULTS cfg)) (\<lambda>(h, df).
     bind_err (derive_id L cfg h df) (\<lambda>h.
     bind_err (parse_datetimes L cfg h df [''pickup_datetime'', ''dropoff_datetime'']) (\<lambda>h.
     bind_err (coerce_numeric L cfg h df ''trip_distance'') (\<lambda>h.
     bind_err (coerce_integer L cfg h df ''passenger_count'') (\<lambda>h.
     bind_err (coerce_numeric L cfg h df ''fare_amount'') (\<lambda>h.
     Inr (h, df)))))))"

subsection \<open>The stores and the run\<close>

text \<open>
  The world of a run: the CSV file (\<open>None\<close> when it does not exist, otherwise what
  \<open>pd.read_csv\<close> reads from it), the staging table \<open>raw_input\<close>, the batches inserted into
  \<open>processed_records\<close>, the rows of \<open>pipeline_metrics\<close>, the results that \<open>uuid.uuid4()\<close>
  and \<open>datetime.utcnow()\<close> give at their successive calls, and the two output streams.
\<close>

record metric =
  run_id :: string
  run_time :: int
  stage :: string
  rows_processed :: nat
  notes_text :: string

record world =
  input_csv :: "dataframe option"
  raw_input :: dataframe
  processed_records :: "dataframe list"
  pipeline_metrics :: "metric list"
  uuid4 :: "nat \<Rightarrow> string"
  uuid_calls :: nat
  utcnow :: "nat \<Rightarrow> int"
  utcnow_calls :: nat
  stdout :: "string list"
  stderr :: "string list"

definition print :: "string \<Rightarrow> world \<Rightarrow> world" where
  "print s w = w\<lparr>stdout := stdout w @ [s]\<rparr>"

text \<open>The decimal digits of a count, for the formatted messages.\<close>

fun str_nat :: "nat \<Rightarrow> string" where
  "str_nat n = (if n < 10 then [''0123456789'' ! n]
                else str_nat (n div 10) @ [''0123456789'' ! (n mod 10)])"

text \<open>\<open>df.where(pd.notnull(df), None)\<close>: every missing value becomes \<open>None\<close>.\<close>

definition where_notnull :: "dataframe \<Rightarrow> dataframe" where
  "where_notnull df =
     df\<lparr>cols := map (\<lambda>(c, s). (c, map (\<lambda>x. if notna x then x else PyNone) s)) (cols df)\<rparr>"

text \<open>\<open>INSERT INTO raw_input (cols) VALUES ...\<close> on an untyped table: a column that the
  table does not have is an error, a column of the table that is not named gets NULL.\<close>

definition insert_into :: "dataframe \<Rightarrow> dataframe \<Rightarrow> error + dataframe" where
  "insert_into tbl b =
     (case filter (\<lambda>c. \<not> has_col tbl c) (map fst (cols b)) of
        c # _ \<Rightarrow> Inl (UndefinedColumn c)
      | [] \<Rightarrow> Inr \<lparr>nrows = nrows tbl + nrows b,
                 cols = map (\<lambda>(c, s). (c, s @ (case map_of (cols b) c of
                                                  None \<Rightarrow> replicate (nrows b) PyNone
                                                | Some s' \<Rightarrow> s'))) (cols tbl)\<rparr>)"

text \<open>
  \<^verbatim>\<open>
  def ingest_csv_to_postgres(csv_path):
      if not os.path.exists(csv_path):
          print(f"CSV not found at {csv_path}", file=sys.stderr)
          return 0
      df = pd.read_csv(csv_path)
      records = df.where(pd.notnull(df), None).to_dict(orient='records')
      ...
      values = [[r.get(c) for c in cols] for r in records]
      try:
          if values:
              execute_values(cur, insert_sql, values)
              conn.commit()
              print(f"Inserted {len(values)} rows into raw_input")
      finally: ...
      return len(values)
  \<close>
\<close>

definition ingest_csv_to_postgres :: "string \<Rightarrow> world \<Rightarrow> error + (nat \<times> world)" where
  "ingest_csv_to_postgres csv_path w =
     (case input_csv w of
        None \<Rightarrow> Inr (0, w\<lparr>stderr := stderr w @ [''CSV not found at '' @ csv_path]\<rparr>)
      | Some df \<Rightarrow>
          (let records = where_notnull df in
           if nrows records \<noteq> 0 then
             bind_err (insert_into (raw_input w) records) (\<lambda>tbl.
             Inr (nrows records,
                  print (''Inserted '' @ str_nat (nrows records) @ '' rows into raw_input'')
                    (w\<lparr>raw_input := tbl\<rparr>)))
           else Inr (nrows records, w)))"

definition read_from_postgres :: "world \<Rightarrow> dataframe" where
  "read_from_postgres w = raw_input w"

text \<open>
  \<^verbatim>\<open>
  def write_to_clickhouse(df: pd.DataFrame, table="processed_records"):
      client = Client(host=CH_HOST, port=CH_PORT, database=CH_DB)
      if df.empty:
          return 0
      df = df.where(pd.notnull(df), None)
      client.insert_dataframe(f"INSERT INTO {CH_DB}.{table} VALUES", df)
      return len(df)
  \<close>
\<close>

definition write_to_clickhouse :: "dataframe \<Rightarrow> world \<Rightarrow> nat \<times> world" where
  "write_to_clickhouse df w =
     (if df_empty df then (0, w)
      else (nrows df, w\<lparr>processed_records := processed_records w @ [where_notnull df]\<rparr>))"

definition write_metric :: "string \<Rightarrow> string \<Rightarrow> nat \<Rightarrow> string \<Rightarrow> world \<Rightarrow> world" where
  "write_metric rid stg rows nts w =
     w\<lparr>pipeline_metrics := pipeline_metrics w @
          [\<lparr>run_id = rid, run_time = utcnow w (utcnow_calls w), stage = stg,
            rows_processed = rows, notes_text = nts\<rparr>],
       utcnow_calls := Suc (utcnow_calls w)\<rparr>"

text \<open>\<open>TRUNCATE TABLE raw_input\<close>.\<close>

definition clear_staging_table :: "world \<Rightarrow> world" where
  "clear_staging_table w =
     w\<lparr>raw_input := \<lparr>nrows = 0, cols = map (\<lambda>(c, s). (c, [])) (cols (raw_input w))\<rparr>\<rparr>"

subsection \<open>\<open>main\<close>\<close>

datatype mode = Ingest | Transform | Full | Clear

definition target_cols :: "string list" where
  "target_cols = [''id'', ''pickup_datetime'', ''dropoff_datetime'', ''passenger_count'',
     ''trip_distance'', ''rate_code'', ''store_and_fwd'', ''payment_type'', ''fare_amount'']"

text \<open>
  \<^verbatim>\<open>
          for c in target_cols:
              if c not in df_t.columns:
                  df_t[c] = None
  \<close>
\<close>

fun ensure_cols :: "store \<Rightarrow> ref \<Rightarrow> string list \<Rightarrow> store" where
  "ensure_cols h df [] = h"
| "ensure_cols h df (c # cs) =
     (if \<not> has_col (h df) c then ensure_cols (h(df := setitem_scalar (h df) c PyNone)) df cs
      else ensure_cols h df cs)"

text \<open>\<open>df_t[target_cols]\<close>: a new frame with the named columns, in the order of the list.\<close>

fun select_cols :: "dataframe \<Rightarrow> string list \<Rightarrow> error + (string \<times> series) list" where
  "select_cols df [] = Inr []"
| "select_cols df (c # cs) =
     bind_err (getitem df c) (\<lambda>s. bind_err (select_cols df cs) (\<lambda>r. Inr ((c, s) # r)))"

definition getitem_list :: "dataframe \<Rightarrow> string list \<Rightarrow> error + dataframe" where
  "getitem_list df cs = bind_err (select_cols df cs) (\<lambda>r. Inr \<lparr>nrows = nrows df, cols = r\<rparr>)"

text \<open>
  The ingest block of \<open>main\<close>:
  \<^verbatim>\<open>
      if args.mode in ("ingest","full"):
          n = ingest_csv_to_postgres(INPUT_CSV)
          write_metric(run_id, "ingest", n, "CSV -> Postgres")
  \<close>
\<close>

definition ingest_stage :: "string \<Rightarrow> string \<Rightarrow> world \<Rightarrow> error + world" where
  "ingest_stage csv_path rid w =
     bind_err (ingest_csv_to_postgres csv_path w) (\<lambda>(n, w).
     Inr (write_metric rid ''ingest'' n ''CSV -> Postgres'' w))"

text \<open>
  The transform block of \<open>main\<close>. The frame read from the staging table is a new object
  of the process; the result says whether \<open>main\<close> returns from inside the block.
  \<^verbatim>\<open>
      if args.mode in ("transform","full"):
          df = read_from_postgres()
          if df.empty:
              print("No data in staging; skipping transform.")
              write_metric(run_id, "transform", 0, "no rows")
              return
          df_t = transform_df(df)
          # ensure clickhouse target columns
          target_cols = [...]
          for c in target_cols:
              if c not in df_t.columns:
                  df_t[c] = None
          rows = write_to_clickhouse(df_t[target_cols])
          write_metric(run_id, "transform", rows, "Postgres -> ClickHouse")
          print(f"Wrote {rows} rows to ClickHouse.")
  \<close>
\<close>

definition new_store :: "dataframe \<Rightarrow> store" where
  "new_store df = (\<lambda>r. \<lparr>nrows = 0, cols = []\<rparr>)(0 := df)"

definition transform_stage :: "pylib \<Rightarrow> config \<Rightarrow> string \<Rightarrow> world \<Rightarrow> error + (bool \<times> world)" where
  "transform_stage L cfg rid w =
     (let h = new_store (read_from_postgres w); df = 0 in
      if df_empty (h df) then
        Inr (True, write_metric rid ''transform'' 0 ''no rows''
                     (print ''No data in staging; skipping transform.'' w))
      else
        bind_err (transform_df L cfg h df) (\<lambda>(h, df_t).
        bind_err (getitem_list (ensure_cols h df_t target_cols df_t) target_cols) (\<lambda>out.
        (case write_to_clickhouse out w of (rows, w) \<Rightarrow>
           Inr (False, print (''Wrote '' @ str_nat rows @ '' rows to ClickHouse.'')
                         (write_metric rid ''transform'' rows ''Postgres -> ClickHouse'' w))))))"

text \<open>
  \<^verbatim>\<open>
  def main():
      ...
      run_id = str(uuid.uuid4())
      if args.mode in ("ingest","full"): ...
      if args.mode in ("transform","full"): ...
      if args.mode == "clear":
          clear_staging_table()
          print("Staging table cleared.")
      print("Done.")
  \<close>
\<close>

definition main :: "pylib \<Rightarrow> config \<Rightarrow> string \<Rightarrow> mode \<Rightarrow> world \<Rightarrow> error + world" where
  "main L cfg csv_path m w0 =
     (let rid = uuid4 w0 (uuid_calls w0);
          w = w0\<lparr>uuid_calls := Suc (uuid_calls w0)\<rparr> in
      bind_err (if m = Ingest \<or> m = Full then ingest_stage csv_path rid w else Inr w) (\<lambda>w.
      bind_err (if m = Transform \<or> m = Full then transform_stage L cfg rid w
                else Inr (False, w)) (\<lambda>(returned, w).
      if returned then Inr w
      else Inr (print ''Done.''
                  (if m = Clear then print ''Staging table cleared.'' (clear_staging_table w)
                   else w)))))"

subsection \<open>The default-fill pass on the content of a frame\<close>

text \<open>One round of the loop of \<open>fill_defaults\<close>, as a function of the content of the frame,
  and the column that the pass leaves for a policy entry: the column with its missing
  values replaced, or a new column that holds the default in every row.\<close>

definition fill_col :: "dataframe \<Rightarrow> string \<times> scalar \<Rightarrow> dataframe" where
  "fill_col d cv = setitem d (fst cv)
     (case map_of (cols d) (fst cv) of
        Some s \<Rightarrow> map (fill_cell (Val (snd cv))) s
      | None \<Rightarrow> replicate (nrows d) (Val (snd cv)))"

definition filled :: "nat \<Rightarrow> series option \<Rightarrow> scalar \<Rightarrow> series" where
  "filled n so v = (case so of Some s \<Rightarrow> map (fill_cell (Val v)) s | None \<Rightarrow> replicate n (Val v))"

text \<open>Two frames that differ in the columns of a set \<open>C\<close> at most.\<close>

definition same_except :: "string set \<Rightarrow> dataframe \<Rightarrow> dataframe \<Rightarrow> bool" where
  "same_except C d d' =
     (nrows d' = nrows d \<and> (\<forall>c. has_col d' c = has_col d c) \<and>
      (\<forall>c. c \<notin> C \<longrightarrow> map_of (cols d') c = map_of (cols d) c) \<and>
      (wf_df d \<longrightarrow> wf_df d'))"

text \<open>What a caller sees after a call that received the reference \<open>r\<close>: the content of
  its object and the reference that the call returned.\<close>

definition content_after :: "error + (store \<times> ref) \<Rightarrow> ref \<Rightarrow> dataframe option" where
  "content_after res r = (case res of Inl e \<Rightarrow> None | Inr hr \<Rightarrow> Some (fst hr r))"

definition returned_ref :: "error + (store \<times> ref) \<Rightarrow> ref option" where
  "returned_ref res = (case res of Inl e \<Rightarrow> None | Inr hr \<Rightarrow> Some (snd hr))"

subsection \<open>Sample data\<close>

text \<open>
  An instance of the library functions on which the model can be run: numbers are read
  in plain decimal notation, instants in the form \<open>YYYY-MM-DD HH:MM\<close> (the instant is
  represented by the number that its digits spell), and the digest is a stand-in that
  returns the key followed by the message. The theorems below hold for every instance;
  this one serves to run them on examples.
\<close>

definition is_digit :: "char \<Rightarrow> bool" where
  "is_digit c = (48 \<le> (of_char c :: nat) \<and> (of_char c :: nat) \<le> 57)"

definition digits_value :: "string \<Rightarrow> nat option" where
  "digits_value s =
     (if s \<noteq> [] \<and> list_all is_digit s
      then Some (foldl (\<lambda>a c. 10 * a + (of_char c - 48)) 0 s) else None)"

definition decimal_value :: "string \<Rightarrow> rat option" where
  "decimal_value s =
     (case dropWhile (\<lambda>c. c \<noteq> CHR ''.'') s of
        [] \<Rightarrow> map_option of_nat (digits_value s)
      | _ # f \<Rightarrow>
          (case (digits_value (takeWhile (\<lambda>c. c \<noteq> CHR ''.'') s), digits_value f) of
             (Some a, Some b) \<Rightarrow> Some (of_nat a + of_nat b / 10 ^ length f)
           | _ \<Rightarrow> None))"

definition minute_value :: "string \<Rightarrow> int option" where
  "minute_value s =
     (if length s = 16 \<and> map (\<lambda>i. s ! i) [4, 7, 10, 13] = ''-- :''
      then map_option int (digits_value (filter is_digit s))
      else None)"

definition sample_lib :: pylib where
  "sample_lib = \<lparr>hmac_sha256 = (\<lambda>key msg. key @ msg),
                 py_str = (\<lambda>v. case v of Str s \<Rightarrow> s
                                  | Num r \<Rightarrow> str_nat (nat (floor r)) @ ''.0''
                                  | Ts t \<Rightarrow> str_nat (nat t)),
                 parse_number = decimal_value,
                 parse_int = (\<lambda>s. map_option int (digits_value s)),
                 parse_datetime = (\<lambda>col. minute_value)\<rparr>"

text \<open>The batch and the policy of the scenario of the specification, and the same policy
  with a default for \<open>pickup_datetime\<close>.\<close>

definition scenario_batch :: dataframe where
  "scenario_batch = \<lparr>nrows = 1, cols =
     [(''pickup_datetime'', [Val (Str ''2024-03-01 10:00'')]),
      (''trip_distance'', [Val (Str ''abc'')]),
      (''passenger_count'', [PyNone])]\<rparr>"

definition scenario_cfg :: config where
  "scenario_cfg = \<lparr>HMAC_KEY = ''k'',
     DEFAULTS = [(''trip_distance'', Num 1), (''passenger_count'', Num 1)]\<rparr>"

definition full_cfg :: config where
  "full_cfg = \<lparr>HMAC_KEY = ''k'',
     DEFAULTS = [(''pickup_datetime'', Str ''2024-01-01 00:00''), (''trip_distance'', Num 1),
                 (''passenger_count'', Num 1)]\<rparr>"

text \<open>A world whose staging table holds the batch of the scenario, and one whose staging
  table has no row.\<close>

definition sample_world :: world where
  "sample_world = \<lparr>input_csv = None, raw_input = scenario_batch, processed_records = [],
     pipeline_metrics = [], uuid4 = (\<lambda>n. ''run-'' @ str_nat n), uuid_calls = 0,
     utcnow = int, utcnow_calls = 0, stdout = [], stderr = []\<rparr>"

definition empty_world :: world where
  "empty_world = sample_world\<lparr>raw_input := \<lparr>nrows = 0, cols = [(''trip_distance'', [])]\<rparr>\<rparr>"

section \<open>Properties\<close>

subsection \<open>Frames and the default-fill pass\<close>

lemma bind_err_Inr_iff: "(bind_err m f = Inr y) = (\<exists>x. m = Inr x \<and> f x = Inr y)"
  by (cases m) (simp_all add: bind_err_def)

lemma bind_err_simps [simp]: "bind_err (Inl e) f = Inl e" "bind_err (Inr x) f = f x"
  by (simp_all add: bind_err_def)

lemma map_of_setitem [simp]: "map_of (cols (setitem d c s)) = (map_of (cols d))(c \<mapsto> s)"
  by (simp add: setitem_def update_conv')

lemma nrows_setitem [simp]: "nrows (setitem d c s) = nrows d"
  by (simp add: setitem_def)

lemma has_col_setitem [simp]: "has_col (setitem d c s) c' = (c' = c \<or> has_col d c')"
  by (simp add: has_col_def)

lemma wf_df_alt: "wf_df d = (distinct (map fst (cols d)) \<and> (\<forall>c s. map_of (cols d) c = Some s \<longrightarrow> length s = nrows d))"
proof (cases "distinct (map fst (cols d))")
  case True
  then have "(\<forall>x\<in>set (cols d). length (snd x) = nrows d) = (\<forall>c s. map_of (cols d) c = Some s \<longrightarrow> length s = nrows d)"
    by (simp add: map_of_eq_Some_iff) force
  with True show ?thesis by (simp add: wf_df_def list_all_iff)
next
  case False
  then show ?thesis by (simp add: wf_df_def)
qed

lemma wf_df_setitem: "wf_df d \<Longrightarrow> length s = nrows d \<Longrightarrow> wf_df (setitem d c s)"
  unfolding wf_df_alt by (auto simp: setitem_def distinct_update update_conv')

lemma getitem_Inr_iff [simp]: "(getitem d c = Inr s) = (map_of (cols d) c = Some s)"
  by (simp add: getitem_def split: option.splits)

lemma has_col_iff: "has_col d c = (\<exists>s. map_of (cols d) c = Some s)"
  by (simp add: has_col_def)

lemma fill_defaults_step:
  "fill_defaults h r ((c, v) # p) = fill_defaults (h(r := fill_col (h r) (c, v))) r p"
  by (cases "map_of (cols (h r)) c")
     (simp_all add: has_col_def store_col_def fill_col_def getitem_def fillna_def)

lemma fill_defaults_foldl: "fill_defaults h r p = Inr (h(r := foldl fill_col (h r) p), r)"
proof (induction p arbitrary: h)
  case Nil
  show ?case by simp
next
  case (Cons a p)
  obtain c v where a: "a = (c, v)" by (cases a)
  have "fill_defaults h r (a # p) = fill_defaults (h(r := fill_col (h r) a)) r p"
    unfolding a by (rule fill_defaults_step)
  also have "\<dots> = Inr ((h(r := fill_col (h r) a))(r := foldl fill_col (fill_col (h r) a) p), r)"
    using Cons.IH [of "h(r := fill_col (h r) a)"] by (simp only: fun_upd_same)
  finally show ?case by (simp only: fun_upd_upd foldl_Cons)
qed

lemma fill_cell_idem [simp]: "fill_cell (Val w) (fill_cell (Val v) x) = fill_cell (Val v) x"
  by (cases x) (simp_all add: fill_cell_def)

lemma nrows_fill_col [simp]: "nrows (fill_col d cv) = nrows d"
  by (simp add: fill_col_def)

lemma nrows_foldl_fill_col [simp]: "nrows (foldl fill_col d p) = nrows d"
  by (induction p arbitrary: d) simp_all

lemma wf_fill_col: "wf_df d \<Longrightarrow> wf_df (fill_col d cv)"
  unfolding fill_col_def
  by (rule wf_df_setitem) (auto simp: wf_df_alt split: option.splits)

lemma wf_foldl_fill_col: "wf_df d \<Longrightarrow> wf_df (foldl fill_col d p)"
  by (induction p arbitrary: d) (simp_all add: wf_fill_col)

lemma filled_filled [simp]: "map (fill_cell (Val w)) (filled n so v) = filled n so v"
  by (cases so) (simp_all add: filled_def fill_cell_def)

lemma map_of_foldl_fill_col:
  "map_of (cols (foldl fill_col d p)) c =
     (case map_of p c of None \<Rightarrow> map_of (cols d) c
      | Some v \<Rightarrow> Some (filled (nrows d) (map_of (cols d) c) v))"
proof (induction p arbitrary: d)
  case Nil
  show ?case by simp
next
  case (Cons a p)
  obtain c' v' where a: "a = (c', v')" by (cases a)
  have step: "map_of (cols (fill_col d (c', v'))) = (map_of (cols d))(c' \<mapsto> filled (nrows d) (map_of (cols d) c') v')"
    by (simp add: fill_col_def filled_def split: option.splits)
  show ?case
  proof (cases "c = c'")
    case True
    have "filled (nrows d) (Some (filled (nrows d) (map_of (cols d) c') v')) w
          = filled (nrows d) (map_of (cols d) c') v'" for w
      by (simp add: filled_def [of _ "Some _"])
    with Cons.IH [of "fill_col d a"] show ?thesis
      by (simp add: step a True split: option.splits)
  next
    case False
    with Cons.IH [of "fill_col d a"] show ?thesis
      by (simp add: step a split: option.splits)
  qed
qed





lemma nrows_where_notnull [simp]: "nrows (where_notnull d) = nrows d"
  by (simp add: where_notnull_def)

lemma transform_stage_empty:
  "df_empty (raw_input w) \<Longrightarrow>
   transform_stage L cfg rid w =
     Inr (True, write_metric rid ''transform'' 0 ''no rows''
                  (print ''No data in staging; skipping transform.'' w))"
  by (simp add: transform_stage_def new_store_def read_from_postgres_def Let_def)

lemma ingest_stage_no_rows:
  "(\<forall>d. input_csv w = Some d \<longrightarrow> nrows d = 0) \<Longrightarrow>
   \<exists>w'. ingest_stage p rid w = Inr w' \<and> raw_input w' = raw_input w \<and>
        processed_records w' = processed_records w \<and> stdout w' = stdout w \<and>
        uuid4 w' = uuid4 w \<and> uuid_calls w' = uuid_calls w \<and>
        pipeline_metrics w' = pipeline_metrics w @
          [\<lparr>run_id = rid, run_time = utcnow w (utcnow_calls w), stage = ''ingest'',
            rows_processed = 0, notes_text = ''CSV -> Postgres''\<rparr>]"
  by (cases "input_csv w")
     (simp_all add: ingest_stage_def ingest_csv_to_postgres_def write_metric_def Let_def)

subsection \<open>The anonymizer\<close>


subsection \<open>The default-fill pass\<close>

text \<open>
  Claim C8. For every batch and policy, the default-fill pass succeeds and works on the
  object it was given: in each column that the policy names and the batch has, every null
  is replaced by the default of the column and the other cells are kept; each column that
  the policy names and the batch lacks is created with the default in every row; the
  columns that the policy does not name are unchanged. The number of rows is kept.
\<close>

theorem fill_defaults_spec:
  "\<exists>d. fill_defaults h df defaults = Inr (h(df := d), df) \<and> nrows d = nrows (h df) \<and>
     (\<forall>c v. map_of defaults c = Some v \<longrightarrow>
        map_of (cols d) c =
          Some (case map_of (cols (h df)) c of
                  Some s \<Rightarrow> map (\<lambda>x. if isna x then Val v else x) s
                | None \<Rightarrow> replicate (nrows (h df)) (Val v))) \<and>
     (\<forall>c. map_of defaults c = None \<longrightarrow> map_of (cols d) c = map_of (cols (h df)) c)"
  by (rule exI [of _ "foldl fill_col (h df) defaults"])
     (simp add: fill_defaults_foldl map_of_foldl_fill_col filled_def fill_cell_def [abs_def] split: option.splits)

theorem fill_defaults_spec_witness:
  "map_of (DEFAULTS scenario_cfg) ''passenger_count'' = Some (Num 1) \<and>
   map_of (DEFAULTS scenario_cfg) ''fare_amount'' = None \<and>
   map_of (DEFAULTS scenario_cfg) ''pickup_datetime'' = None \<and>
   (\<exists>d. fill_defaults (new_store scenario_batch) 0 (DEFAULTS scenario_cfg)
           = Inr ((new_store scenario_batch)(0 := d), 0) \<and>
        nrows d = 1 \<and>
        map_of (cols d) ''passenger_count'' = Some [Val (Num 1)] \<and>
        map_of (cols d) ''fare_amount'' = None \<and>
        map_of (cols d) ''pickup_datetime'' = Some [Val (Str ''2024-03-01 10:00'')])"
proof -
  have a: "map_of (DEFAULTS scenario_cfg) ''passenger_count'' = Some (Num 1)"
    and b: "map_of (DEFAULTS scenario_cfg) ''fare_amount'' = None"
    and c: "map_of (DEFAULTS scenario_cfg) ''pickup_datetime'' = None"
    by (simp_all add: scenario_cfg_def)
  obtain d where d: "fill_defaults (new_store scenario_batch) 0 (DEFAULTS scenario_cfg)
           = Inr ((new_store scenario_batch)(0 := d), 0)"
    "nrows d = nrows (new_store scenario_batch 0)"
    "\<forall>c v. map_of (DEFAULTS scenario_cfg) c = Some v \<longrightarrow>
        map_of (cols d) c =
          Some (case map_of (cols (new_store scenario_batch 0)) c of
                  Some s \<Rightarrow> map (\<lambda>x. if isna x then Val v else x) s
                | None \<Rightarrow> replicate (nrows (new_store scenario_batch 0)) (Val v))"
    "\<forall>c. map_of (DEFAULTS scenario_cfg) c = None \<longrightarrow>
        map_of (cols d) c = map_of (cols (new_store scenario_batch 0)) c"
    using fill_defaults_spec [of "new_store scenario_batch" 0 "DEFAULTS scenario_cfg"]
    by blast
  from d(3) a have "map_of (cols d) ''passenger_count'' = Some [Val (Num 1)]"
    by (simp add: new_store_def scenario_batch_def)
  moreover from d(4) b have "map_of (cols d) ''fare_amount'' = None"
    by (simp add: new_store_def scenario_batch_def)
  moreover from d(4) c have "map_of (cols d) ''pickup_datetime'' = Some [Val (Str ''2024-03-01 10:00'')]"
    by (simp add: new_store_def scenario_batch_def)
  moreover from d(2) have "nrows d = 1"
    by (simp add: new_store_def scenario_batch_def)
  ultimately show ?thesis using a b c d(1) by blast
qed

subsection \<open>The run on an empty staging table\<close>

text \<open>
  Claim C4. When the staging table has no row, a run in mode \<open>transform\<close> (or in mode
  \<open>full\<close> when the ingest adds no row) writes nothing to the analytical record table,
  emits exactly one metric of stage \<open>transform\<close>, with 0 rows and the run identifier of the
  run, and returns at once: its last output is the message that the transform is skipped,
  and \<open>Done.\<close> is not printed.
\<close>

theorem empty_staging_short_circuit:
  assumes "nrows (raw_input w) = 0"
    and "m = Transform \<or> (m = Full \<and> (\<forall>d. input_csv w = Some d \<longrightarrow> nrows d = 0))"
  shows "\<exists>w' ms. main L cfg csv_path m w = Inr w' \<and>
           processed_records w' = processed_records w \<and>
           pipeline_metrics w' = pipeline_metrics w @ ms \<and>
           map (\<lambda>x. (run_id x, stage x, rows_processed x, notes_text x))
             (filter (\<lambda>x. stage x = ''transform'') ms)
             = [(uuid4 w (uuid_calls w), ''transform'', 0, ''no rows'')] \<and>
           stdout w' = stdout w @ [''No data in staging; skipping transform.'']"
proof -
  let ?rid = "uuid4 w (uuid_calls w)"
  let ?w1 = "w\<lparr>uuid_calls := Suc (uuid_calls w)\<rparr>"
  from assms(2) show ?thesis
  proof
    assume m: "m = Transform"
    from assms(1) have e: "df_empty (raw_input ?w1)" by (simp add: df_empty_def)
    show ?thesis
      by (simp add: main_def Let_def m transform_stage_empty [OF e] write_metric_def print_def)
  next
    assume m: "m = Full \<and> (\<forall>d. input_csv w = Some d \<longrightarrow> nrows d = 0)"
    then have "\<forall>d. input_csv ?w1 = Some d \<longrightarrow> nrows d = 0" by simp
    from ingest_stage_no_rows [OF this, of csv_path ?rid]
    obtain w2 where w2: "ingest_stage csv_path ?rid ?w1 = Inr w2"
      "raw_input w2 = raw_input w" "processed_records w2 = processed_records w"
      "stdout w2 = stdout w"
      "pipeline_metrics w2 = pipeline_metrics w @
          [\<lparr>run_id = ?rid, run_time = utcnow w (utcnow_calls w), stage = ''ingest'',
            rows_processed = 0, notes_text = ''CSV -> Postgres''\<rparr>]"
      by auto
    from assms(1) w2(2) have e: "df_empty (raw_input w2)" by (simp add: df_empty_def)
    show ?thesis
      using m w2
      by (simp add: main_def Let_def transform_stage_empty [OF e] write_metric_def print_def)
  qed
qed

theorem empty_staging_short_circuit_witness:
  "nrows (raw_input empty_world) = 0 \<and>
   (\<exists>w' ms. main sample_lib full_cfg ''/data/trips.csv'' Transform empty_world = Inr w' \<and>
           processed_records w' = [] \<and>
           pipeline_metrics w' = ms \<and>
           map (\<lambda>x. (run_id x, stage x, rows_processed x, notes_text x))
             (filter (\<lambda>x. stage x = ''transform'') ms)
             = [(''run-0'', ''transform'', 0, ''no rows'')] \<and>
           stdout w' = [''No data in staging; skipping transform.''])"
proof -
  have n: "nrows (raw_input empty_world) = 0"
    by (simp add: empty_world_def)
  have "Transform = Transform \<or>
        (Transform = Full \<and> (\<forall>d. input_csv empty_world = Some d \<longrightarrow> nrows d = 0))"
    by simp
  from empty_staging_short_circuit [OF n this, of sample_lib full_cfg "''/data/trips.csv''"]
  show ?thesis
    using n by (simp add: empty_world_def sample_world_def)
qed

end
